theory Spec2Isabelle
  imports Complex_Main
begin

section \<open>Python values and exceptions\<close>

text \<open>
  Exceptions of the Python runtime and of the libraries that the two scripts can raise.
  A fallible operation returns \<open>pyexc + 'a\<close>, with \<open>Inl\<close> for the raised exception.
\<close>

datatype pyexc =
    ValueError
  | TypeError
  | AttributeError
  | KeyError
  | InvalidIndexError
  | AssertionError string
  | OtherError string

section \<open>The pandas fragment used by \<open>helper_functions.py\<close>\<close>

text \<open>
  \<open>str.replace(old, new)\<close> of Python, which \<open>Series.str.replace\<close> applies to every
  element: every non-overlapping occurrence of \<open>old\<close> is replaced, scanning from the left.
  With an empty \<open>old\<close> Python puts \<open>new\<close> before every character and at the end.
\<close>

function str_replace :: "string \<Rightarrow> string \<Rightarrow> string \<Rightarrow> string" where
  "str_replace old new [] = (if old = [] then new else [])"
| "str_replace old new (c # cs) =
     (if old = [] then new @ c # str_replace old new cs
      else if take (length old) (c # cs) = old
        then new @ str_replace old new (drop (length old) (c # cs))
      else c # str_replace old new cs)"
  by pat_completeness auto
termination
  by (relation "measure (\<lambda>(old, new, s). length s)") auto

text \<open>
  The result of \<open>sklearn.model_selection.cross_validate\<close>: a dictionary from a key to the
  array of per-fold values. A Python dictionary keeps insertion order, and the order of
  the keys becomes the order of the columns, so it is an association list (a dictionary
  has no key twice: \<open>distinct (map fst X)\<close>). Fold values are exact reals; the rounding of
  binary floating point is outside this model.
\<close>

type_synonym cvresult = "(string \<times> real list) list"

text \<open>
  A cell of a data frame is a number, the missing value \<open>NaN\<close>, or a string. A frame is
  the list of its columns in order, each with its label and its cells (one per row);
  pandas allows a label to occur more than once. A series is a labelled list of cells.
\<close>

datatype cell = Num real | NaN | Str string

type_synonym numframe = "(string \<times> real list) list"
type_synonym dataframe = "(string \<times> cell list) list"
type_synonym series = "(string \<times> cell) list"

definition n_rows :: "(string \<times> 'a list) list \<Rightarrow> nat" where
  "n_rows df = (case df of [] \<Rightarrow> 0 | c # _ \<Rightarrow> length (snd c))"

definition columns :: "(string \<times> 'a) list \<Rightarrow> string list" where
  "columns df = map fst df"

text \<open>All columns of a frame that carry the label \<open>k\<close>, in order.\<close>

definition column :: "(string \<times> 'a) list \<Rightarrow> string \<Rightarrow> 'a list" where
  "column df k = map snd (filter (\<lambda>c. fst c = k) df)"

text \<open>
  \<open>pd.DataFrame(X)\<close> for a dictionary of arrays: one column per key, in key order.
  Arrays of different lengths raise \<open>ValueError\<close>.
\<close>

definition pd_DataFrame :: "cvresult \<Rightarrow> pyexc + numframe" where
  "pd_DataFrame X =
     (if list_all (\<lambda>c. length (snd c) = n_rows X) X then Inr X else Inl ValueError)"

text \<open>
  \<open>pd.Series(names).str.replace(old, new).tolist()\<close>. In the pandas releases the project
  was written against (1.x), a series built from an empty list has a float dtype and its
  \<open>.str\<close> accessor raises \<open>AttributeError\<close>.
\<close>

definition Series_str_replace :: "string list \<Rightarrow> string \<Rightarrow> string \<Rightarrow> pyexc + string list" where
  "Series_str_replace names old new =
     (if names = [] then Inl AttributeError else Inr (map (str_replace old new) names))"

text \<open>
  \<open>DataFrame.mean()\<close> on a numeric frame: per column, the sum of the cells divided by
  their number; a column without cells has the mean \<open>NaN\<close>. The sum and the quotient are
  the exact ones. The library computes them in binary floating point, so the two agree
  where every sum and the quotient are representable, as for the fold values used in the
  statements below (\<open>0\<close>, \<open>0.5\<close>, \<open>1\<close>, \<open>3\<close> and the like); rounding, overflow and folds
  that are \<open>NaN\<close> are outside this model, and the statements below name the value of a
  mean only for such fold values.
\<close>

definition mean_cell :: "real list \<Rightarrow> cell" where
  "mean_cell xs = (if xs = [] then NaN else Num (sum_list xs / real (length xs)))"

definition df_mean :: "numframe \<Rightarrow> series" where
  "df_mean df = map (\<lambda>c. (fst c, mean_cell (snd c))) df"

text \<open>\<open>pd.DataFrame(s).T\<close> for a series \<open>s\<close>: a frame of one row, a column per label of \<open>s\<close>.\<close>

definition DataFrame_T :: "series \<Rightarrow> dataframe" where
  "DataFrame_T s = map (\<lambda>c. (fst c, [snd c])) s"

text \<open>\<open>df.columns = names\<close>: relabels the columns in order; a wrong number of labels raises.\<close>

definition set_columns :: "dataframe \<Rightarrow> string list \<Rightarrow> pyexc + dataframe" where
  "set_columns df names =
     (if length names = length df then Inr (zip names (map snd df)) else Inl ValueError)"

text \<open>
  \<open>df[key] = v\<close> for a scalar \<open>v\<close>: a column labelled \<open>key\<close> is overwritten where it
  stands, otherwise a new column is added after the last one.
\<close>

definition setitem :: "dataframe \<Rightarrow> string \<Rightarrow> cell \<Rightarrow> dataframe" where
  "setitem df key v =
     (if key \<in> set (columns df)
      then map (\<lambda>c. if fst c = key then (key, replicate (length (snd c)) v) else c) df
      else df @ [(key, replicate (n_rows df) v)])"

text \<open>
  \<open>df[keys]\<close> for a list of labels: for every label of the list in turn, all the columns
  that carry it; a label that no column carries raises \<open>KeyError\<close>.
\<close>

definition getitem_list :: "dataframe \<Rightarrow> string list \<Rightarrow> pyexc + dataframe" where
  "getitem_list df keys =
     (if list_all (\<lambda>k. k \<in> set (columns df)) keys
      then Inr (concat (map (\<lambda>k. filter (\<lambda>c. fst c = k) df) keys))
      else Inl KeyError)"

section \<open>\<open>summarize_cv_scores\<close>\<close>

definition summarize_cv_scores :: "cvresult \<Rightarrow> string \<Rightarrow> pyexc + dataframe" where
  "summarize_cv_scores X classifier_name =
     (case pd_DataFrame X of Inl e \<Rightarrow> Inl e | Inr X_df \<Rightarrow>
      case Series_str_replace (columns X_df) ''test_'' ''validation_'' of
        Inl e \<Rightarrow> Inl e
      | Inr col_names \<Rightarrow>
      case set_columns (DataFrame_T (df_mean X_df)) col_names of
        Inl e \<Rightarrow> Inl e
      | Inr X_df1 \<Rightarrow>
          getitem_list (setitem X_df1 ''classifier_name'' (Str classifier_name))
            (''classifier_name'' # col_names))"

text \<open>The dictionary \<open>toy_score\<close> of \<open>main\<close> in \<open>helper_functions.py\<close>.\<close>

definition toy_score :: cvresult where
  "toy_score =
    [(''fit_time'', [0.02657628, 0.02356863, 0.02640152, 0.02609539, 0.02393484]),
     (''score_time'', [0.02375078, 0.02024961, 0.02282763, 0.02582216, 0.0217247]),
     (''test_accuracy'', [0.5, 0.5, 0.5, 0.5, 0.5]),
     (''train_accuracy'', [0.5, 0.5, 0.5, 0.5, 0.5]),
     (''test_f1'', [0, 0, 0, 0, 0]),
     (''train_f1'', [0, 0, 0, 0, 0]),
     (''test_recall'', [0, 0, 0, 0, 0]),
     (''train_recall'', [0, 0, 0, 0, 0]),
     (''test_precision'', [0, 0, 0, 0, 0]),
     (''train_precision'', [0, 0, 0, 0, 0]),
     (''test_average_precision'', [0.5, 0.5, 0.5, 0.5, 0.5]),
     (''train_average_precision'', [0.5, 0.5, 0.5, 0.5, 0.5]),
     (''test_roc_auc'', [0.5, 0.5, 0.5, 0.5, 0.5]),
     (''train_roc_auc'', [0.5, 0.5, 0.5, 0.5, 0.5])]"

subsection \<open>The call on a store\<close>

text \<open>
  To speak about mutation, the same function on an explicit store. An object lives at an
  address (its index in the store); allocation appends, assignment to an attribute or an
  item of an object overwrites the object at its address. The dictionary \<open>X\<close> holds the
  addresses of its arrays. \<open>pd.DataFrame(X)\<close> copies the values of the arrays into a new
  frame; \<open>pd.DataFrame(X_df.mean()).T\<close> and \<open>X_df[col_names]\<close> are new frames;
  \<open>X_df.columns = col_names\<close> and \<open>X_df["classifier_name"] = classifier_name\<close> change
  the frame that the variable \<open>X_df\<close> refers to at that point, in place.
\<close>

type_synonym addr = nat

datatype obj =
    Ndarray "real list"
  | PyDict "(string \<times> addr) list"
  | NumFrame numframe
  | Frame dataframe

type_synonym heap = "obj list"

definition alloc :: "heap \<Rightarrow> obj \<Rightarrow> addr \<times> heap" where
  "alloc h ob = (length h, h @ [ob])"

definition store :: "heap \<Rightarrow> addr \<Rightarrow> obj \<Rightarrow> heap" where
  "store h a ob = h[a := ob]"

fun load_arrays :: "heap \<Rightarrow> (string \<times> addr) list \<Rightarrow> cvresult option" where
  "load_arrays h [] = Some []"
| "load_arrays h ((k, a) # kas) =
     (if a < length h
      then (case h ! a of
              Ndarray xs \<Rightarrow> map_option ((#) (k, xs)) (load_arrays h kas)
            | _ \<Rightarrow> None)
      else None)"

definition load_dict :: "heap \<Rightarrow> addr \<Rightarrow> cvresult option" where
  "load_dict h X =
     (if X < length h
      then (case h ! X of PyDict kas \<Rightarrow> load_arrays h kas | _ \<Rightarrow> None)
      else None)"

definition load_frame :: "heap \<Rightarrow> addr \<Rightarrow> dataframe" where
  "load_frame h a = (if a < length h then (case h ! a of Frame df \<Rightarrow> df | _ \<Rightarrow> []) else [])"

definition summarize_cv_scores_heap :: "addr \<Rightarrow> string \<Rightarrow> heap \<Rightarrow> (pyexc + addr) \<times> heap" where
  "summarize_cv_scores_heap X classifier_name h =
     (case load_dict h X of None \<Rightarrow> (Inl TypeError, h) | Some d \<Rightarrow>
      case pd_DataFrame d of Inl e \<Rightarrow> (Inl e, h) | Inr f \<Rightarrow>
      let (X_df, h1) = alloc h (NumFrame f) in
      case Series_str_replace (columns f) ''test_'' ''validation_'' of
        Inl e \<Rightarrow> (Inl e, h1)
      | Inr col_names \<Rightarrow>
      let (X_df, h2) = alloc h1 (Frame (DataFrame_T (df_mean f))) in
      case set_columns (load_frame h2 X_df) col_names of
        Inl e \<Rightarrow> (Inl e, h2)
      | Inr g \<Rightarrow>
      let h3 = store h2 X_df (Frame g);
          h4 = store h3 X_df (Frame (setitem (load_frame h3 X_df) ''classifier_name''
                  (Str classifier_name)));
          col_names = ''classifier_name'' # col_names
      in case getitem_list (load_frame h4 X_df) col_names of
           Inl e \<Rightarrow> (Inl e, h4)
         | Inr res \<Rightarrow> (let (r, h5) = alloc h4 (Frame res) in (Inr r, h5)))"

section \<open>\<open>get_hyperparameter_grid\<close> and \<open>get_feature_lists\<close>\<close>

text \<open>
  \<open>np.arange(start, stop, step)\<close> on integers with a positive step, as at both call
  sites: \<open>start, start + step, \<dots>\<close> below \<open>stop\<close>.
\<close>

definition np_arange :: "int \<Rightarrow> int \<Rightarrow> int \<Rightarrow> int list" where
  "np_arange start stop step =
     map (\<lambda>i. start + int i * step) [0 ..< nat (- ((start - stop) div step))]"

type_synonym param_grid = "(string \<times> int list) list"

definition get_hyperparameter_grid :: "string \<Rightarrow> pyexc + param_grid option" where
  "get_hyperparameter_grid model_name =
     (if model_name \<notin> set
          [''decision_tree'', ''knn'', ''svc'', ''logistic_regression'', ''random_forest'']
      then Inl (AssertionError ''Invalid model name...'')
      else if model_name = ''random_forest''
        then Inr (Some
          [(''randomforestclassifier__n_estimators'', np_arange 500 1001 100),
           (''randomforestclassifier__min_samples_split'', np_arange 4 11 1)])
      else Inr None)"

definition get_feature_lists ::
  "string list \<times> string list \<times> string list \<times> string list \<times> string list \<times> string list" where
  "get_feature_lists =
     (let numeric_features_general =
            [''lead_time'', ''stays_in_weekend_nights'', ''stays_in_week_nights'', ''adults'',
             ''previous_cancellations'', ''previous_bookings_not_canceled'',
             ''booking_changes'', ''days_in_waiting_list'', ''adr'',
             ''required_car_parking_spaces'', ''total_of_special_requests'',
             ''arrival_date_year'', ''arrival_date_week_number'',
             ''arrival_date_day_of_month''];
          numeric_features_special = [''children'', ''babies''];
          categorical_features_general =
            [''hotel'', ''arrival_date_month'', ''meal'', ''market_segment'',
             ''distribution_channel'', ''reserved_room_type'', ''deposit_type'',
             ''customer_type''];
          categorical_features_special = [''country''];
          drop_features =
            [''company'', ''reservation_status'', ''reservation_status_date'', ''agent''];
          binary_features = [''is_repeated_guest'']
      in (numeric_features_general, numeric_features_special, categorical_features_general,
          categorical_features_special, drop_features, binary_features))"

section \<open>\<open>classifier_evaluation.py\<close>\<close>

subsection \<open>Command-line values\<close>

text \<open>
  A command-line value as \<open>main\<close> receives it: \<open>docopt\<close> hands over \<open>None\<close> for an option
  that is absent and a string otherwise; a caller of \<open>main\<close> may also pass a boolean or an
  integer.
\<close>

datatype pyval = PyNone | PyStr string | PyBool bool | PyInt int

subsection \<open>Estimators, the outside world, and what a run does\<close>

text \<open>
  The estimators are descriptions handed to \<open>cross_validate\<close>: the steps of a pipeline
  with their arguments, and a classifier with its seed. The \<open>n_jobs\<close> hints are left out.
\<close>

datatype fill = NoFill | FillInt int | FillStr string

datatype step =
    SimpleImputer string fill
  | StandardScaler
  | OneHotEncoder string

type_synonym preprocessor = "(step list \<times> string list) list"

datatype classifier =
    DummyClassifier string int
  | DecisionTreeClassifier int
  | KNeighborsClassifier nat
  | SVC int
  | LogisticRegression int nat
  | RandomForestClassifier int

datatype estimator = Plain classifier | Pipeline preprocessor classifier

text \<open>A table read from a file: its columns in order, with the cells as text.\<close>

type_synonym table = "(string \<times> string list) list"

text \<open>
  What the program calls and does not define is a parameter of the model:
  \<^item> \<open>int_str s\<close> is the builtin \<open>int(s)\<close> on a string: \<open>Some i\<close> where it returns \<open>i\<close>,
    \<open>None\<close> where it raises \<open>ValueError\<close>;
  \<^item> \<open>read_csv\<close> is \<open>pd.read_csv\<close> (the file system);
  \<^item> \<open>cross_validate\<close> is \<open>sklearn.model_selection.cross_validate\<close>, with the estimator,
    the features, the labels, the scoring names and the \<open>cv\<close> argument;
  \<^item> \<open>to_csv path df\<close> is \<open>df.to_csv(path, index=False)\<close>: \<open>None\<close> where the file is
    written, the exception otherwise.
\<close>

record world =
  int_str :: "string \<Rightarrow> int option"
  read_csv :: "string \<Rightarrow> pyexc + table"
  cross_validate ::
    "estimator \<Rightarrow> table \<Rightarrow> string list \<Rightarrow> string list \<Rightarrow> int \<Rightarrow> pyexc + cvresult"
  to_csv :: "string \<Rightarrow> dataframe \<Rightarrow> pyexc option"

text \<open>
  \<open>int(v)\<close>: a string goes to the builtin, a boolean is \<open>0\<close> or \<open>1\<close>, an integer is
  itself, and \<open>None\<close> raises \<open>TypeError\<close>.
\<close>

definition py_int :: "world \<Rightarrow> pyval \<Rightarrow> pyexc + int" where
  "py_int w v =
     (case v of
        PyNone \<Rightarrow> Inl TypeError
      | PyStr s \<Rightarrow> (case int_str w s of None \<Rightarrow> Inl ValueError | Some i \<Rightarrow> Inr i)
      | PyBool b \<Rightarrow> Inr (if b then 1 else 0)
      | PyInt i \<Rightarrow> Inr i)"

text \<open>
  What a run does, in order, and how it ends: by returning, by \<open>exit(code)\<close>, or by an
  exception that nothing catches.
\<close>

datatype printed = Text string | ExcMessage pyexc | ExcType pyexc

datatype event =
    Print printed
  | ReadCsv string
  | CrossValidate estimator int
  | ToCsv string dataframe

datatype outcome = Returned | Exit int | Uncaught pyexc

subsection \<open>The pandas calls of \<open>main\<close>\<close>

text \<open>\<open>df.drop(columns=labels)\<close>: a label that is no column raises \<open>KeyError\<close>.\<close>

definition drop_columns :: "table \<Rightarrow> string list \<Rightarrow> pyexc + table" where
  "drop_columns df labels =
     (if list_all (\<lambda>k. k \<in> set (columns df)) labels
      then Inr (filter (\<lambda>c. fst c \<notin> set labels) df)
      else Inl KeyError)"

text \<open>\<open>df[key]\<close> for one label (the columns of a table read from a file are distinct).\<close>

definition getitem :: "table \<Rightarrow> string \<Rightarrow> pyexc + string list" where
  "getitem df key = (case column df key of [] \<Rightarrow> Inl KeyError | v # _ \<Rightarrow> Inr v)"

text \<open>
  \<open>pd.concat([a, b], ignore_index=True)\<close>: the rows of \<open>b\<close> under the rows of \<open>a\<close>. With
  the same labels in the same order the columns are joined one by one. Otherwise the
  labels of \<open>a\<close> are followed by the new labels of \<open>b\<close>, a frame that lacks a label gets
  \<open>NaN\<close> there, and pandas refuses to align a frame that has a label twice.
\<close>

definition cells_of :: "dataframe \<Rightarrow> string \<Rightarrow> cell list" where
  "cells_of df k = (case column df k of [] \<Rightarrow> replicate (n_rows df) NaN | v # _ \<Rightarrow> v)"

definition append_rows :: "dataframe \<Rightarrow> dataframe \<Rightarrow> dataframe" where
  "append_rows a b = map (\<lambda>(ca, cb). (fst ca, snd ca @ snd cb)) (zip a b)"

definition pd_concat :: "dataframe \<Rightarrow> dataframe \<Rightarrow> pyexc + dataframe" where
  "pd_concat a b =
     (if columns a = columns b
      then Inr (append_rows a b)
      else if distinct (columns a) \<and> distinct (columns b)
      then Inr (map (\<lambda>k. (k, cells_of a k @ cells_of b k))
                  (columns a @ filter (\<lambda>k. k \<notin> set (columns a)) (columns b)))
      else Inl InvalidIndexError)"

text \<open>\<open>df.iloc[[i]]\<close>: row \<open>i\<close> of a frame, as a frame of one row (for \<open>i\<close> below \<open>n_rows df\<close>).\<close>

definition iloc_row :: "dataframe \<Rightarrow> nat \<Rightarrow> dataframe" where
  "iloc_row df i = map (\<lambda>c. (fst c, [snd c ! i])) df"

text \<open>
  The keys of the dictionary that \<open>cross_validate\<close> returns for a list of scoring names
  when it is called with \<open>return_train_score=True\<close>, as \<open>main\<close> calls it: the two timing
  keys, then the held-out and the training key of every scoring name.
\<close>

definition cross_validate_keys :: "string list \<Rightarrow> string list" where
  "cross_validate_keys scoring =
     [''fit_time'', ''score_time''] @ concat (map (\<lambda>m. [''test_'' @ m, ''train_'' @ m]) scoring)"

subsection \<open>\<open>main\<close>\<close>

text \<open>
  The body of each of the two \<open>try\<close> blocks: the default for an absent option, \<open>int()\<close>
  otherwise.
\<close>

definition int_or_default :: "world \<Rightarrow> int \<Rightarrow> pyval \<Rightarrow> pyexc + int" where
  "int_or_default w d v = (if v = PyNone then Inr d else py_int w v)"

definition make_preprocessor :: preprocessor where
  "make_preprocessor =
     (case get_feature_lists of
        (numeric_features_general, numeric_features_special, categorical_features_general,
         categorical_features_special, drop_features, binary_features) \<Rightarrow>
        (let numeric_pipeline_general = [SimpleImputer ''median'' NoFill, StandardScaler];
             numeric_pipeline_special = [SimpleImputer ''constant'' (FillInt 0), StandardScaler];
             categorical_pipeline_general =
               [SimpleImputer ''most_frequent'' NoFill, OneHotEncoder ''ignore''];
             categorical_pipeline_special =
               [SimpleImputer ''constant'' (FillStr ''missing''), OneHotEncoder ''ignore''];
             binary_pipeline = [SimpleImputer ''most_frequent'' NoFill]
         in [(numeric_pipeline_general, numeric_features_general),
             (numeric_pipeline_special, numeric_features_special),
             (categorical_pipeline_general, categorical_features_general),
             (categorical_pipeline_special, categorical_features_special),
             (binary_pipeline, binary_features)]))"

definition eval_metrics :: "string list" where
  "eval_metrics = [''f1'', ''precision'', ''recall'', ''accuracy'']"

text \<open>The dictionary \<open>models\<close>, in the order in which its keys are written.\<close>

definition models :: "int \<Rightarrow> (string \<times> classifier) list" where
  "models chosen_seed =
     [(''Decision Tree'', DecisionTreeClassifier chosen_seed),
      (''k_Nearest_Neighbor'', KNeighborsClassifier 3),
      (''SVC (RBF kernel)'', SVC chosen_seed),
      (''Logistic Regression'', LogisticRegression chosen_seed 1000),
      (''Random Forest'', RandomForestClassifier chosen_seed)]"

text \<open>
  The loop \<open>for m in models\<close>: the events so far and the report so far are passed along;
  an exception ends the loop and the run.
\<close>

fun evaluate_models ::
  "world \<Rightarrow> bool \<Rightarrow> table \<Rightarrow> string list \<Rightarrow> int \<Rightarrow> (string \<times> classifier) list \<Rightarrow>
   event list \<Rightarrow> dataframe \<Rightarrow> event list \<times> (pyexc + dataframe)" where
  "evaluate_models w verbose X_train y_train n_cv_folds [] tr mean_scores_df =
     (tr, Inr mean_scores_df)"
| "evaluate_models w verbose X_train y_train n_cv_folds ((m, clf) # ms) tr mean_scores_df =
     (let tr1 = tr @ (if verbose then [Print (Text (''Evaluating '' @ m))] else []);
          model_pipe = Pipeline make_preprocessor clf;
          tr2 = tr1 @ [CrossValidate model_pipe n_cv_folds]
      in case cross_validate w model_pipe X_train y_train eval_metrics n_cv_folds of
           Inl e \<Rightarrow> (tr2, Inl e)
         | Inr scores \<Rightarrow>
        (case summarize_cv_scores scores m of
           Inl e \<Rightarrow> (tr2, Inl e)
         | Inr row \<Rightarrow>
        (case pd_concat mean_scores_df row of
           Inl e \<Rightarrow> (tr2, Inl e)
         | Inr df \<Rightarrow> evaluate_models w verbose X_train y_train n_cv_folds ms tr2 df)))"

text \<open>Lines 84 to 175 of the script: everything after the two options are checked.\<close>

definition main_evaluation ::
  "world \<Rightarrow> string \<Rightarrow> string \<Rightarrow> int \<Rightarrow> int \<Rightarrow> bool \<Rightarrow> event list \<times> outcome" where
  "main_evaluation w train_data_file report_file n_cv_folds chosen_seed verbose =
     (let tr0 = [ReadCsv train_data_file] in
      case read_csv w train_data_file of Inl e \<Rightarrow> (tr0, Uncaught e) | Inr train_df \<Rightarrow>
      let tr1 = tr0 @ (if verbose then [Print (Text ''Training Data Imported...'')] else []) in
      case drop_columns train_df [''is_canceled''] of
        Inl e \<Rightarrow> (tr1, Uncaught e)
      | Inr X_train \<Rightarrow>
      case getitem train_df ''is_canceled'' of Inl e \<Rightarrow> (tr1, Uncaught e) | Inr y_train \<Rightarrow>
      let tr2 = tr1 @ (if verbose then [Print (Text ''Preprocessor Created...'')] else []);
          model_dummy = Plain (DummyClassifier ''stratified'' chosen_seed);
          tr3 = tr2 @ [CrossValidate model_dummy n_cv_folds]
      in case cross_validate w model_dummy X_train y_train eval_metrics n_cv_folds of
           Inl e \<Rightarrow> (tr3, Uncaught e)
         | Inr scores \<Rightarrow>
      case summarize_cv_scores scores ''Dummy Classifier'' of
        Inl e \<Rightarrow> (tr3, Uncaught e)
      | Inr mean_scores_df \<Rightarrow>
      case evaluate_models w verbose X_train y_train n_cv_folds (models chosen_seed) tr3
             mean_scores_df of
        (tr4, Inl e) \<Rightarrow> (tr4, Uncaught e)
      | (tr4, Inr report) \<Rightarrow>
          (let tr5 = tr4 @ (if verbose then [Print (Text ''Evaluation Complete...'')] else []) @
                 [ToCsv report_file report]
           in case to_csv w report_file report of
                Some e \<Rightarrow> (tr5, Uncaught e)
              | None \<Rightarrow> (tr5 @ [Print (Text ''Report generated and saved...'')], Returned)))"

definition main ::
  "world \<Rightarrow> string \<Rightarrow> string \<Rightarrow> pyval \<Rightarrow> pyval \<Rightarrow> pyval \<Rightarrow> event list \<times> outcome" where
  "main w train_data_file report_file n_cv_folds chosen_seed verbose =
     (let verbose = (if verbose = PyStr ''True'' then True else False) in
      case int_or_default w 1 chosen_seed of
        Inl vx \<Rightarrow>
          (if vx = ValueError
           then ([Print (Text ''Value of chosen_seed should be int''),
                  Print (ExcMessage vx), Print (ExcType vx)], Exit (- 2))
           else ([Print (ExcMessage vx), Print (ExcType vx)], Exit (- 99)))
      | Inr chosen_seed \<Rightarrow>
      case int_or_default w 5 n_cv_folds of
        Inl vx \<Rightarrow>
          (if vx = ValueError
           then ([Print (Text ''Value of n_cv_folds should be int''),
                  Print (ExcMessage vx), Print (ExcType vx)], Exit (- 3))
           else ([Print (ExcMessage vx), Print (ExcType vx)], Exit (- 99)))
      | Inr n_cv_folds \<Rightarrow>
          main_evaluation w train_data_file report_file n_cv_folds chosen_seed verbose)"

subsection \<open>A small world for concrete runs\<close>

text \<open>
  A world to run \<open>main\<close> in: \<open>int()\<close> on the four strings that the runs below pass to it
  (\<open>2\<close> and \<open>7\<close> are integers, \<open>abc\<close> and \<open>five\<close> are not; the runs pass no other
  string), a file of two rows with the label column, a \<open>cross_validate\<close> that answers
  every call with the same two-fold result under the keys of the four scoring names, and
  a report file that can be written.
\<close>

definition toy_cv_scores :: cvresult where
  "toy_cv_scores =
     [(''fit_time'', [2, 4]), (''score_time'', [1, 1]),
      (''test_f1'', [1 / 2, 1]), (''train_f1'', [1, 1]),
      (''test_precision'', [1 / 2, 1 / 2]), (''train_precision'', [1, 1]),
      (''test_recall'', [0, 1]), (''train_recall'', [1, 1]),
      (''test_accuracy'', [1 / 4, 3 / 4]), (''train_accuracy'', [1, 1])]"

definition toy_world :: world where
  "toy_world =
     \<lparr>int_str = (\<lambda>s. if s = ''2'' then Some 2 else if s = ''7'' then Some 7 else None),
      read_csv = (\<lambda>f. Inr [(''lead_time'', [''342'', ''737'']), (''is_canceled'', [''0'', ''1''])]),
      cross_validate = (\<lambda>e X y scoring cv. Inr toy_cv_scores),
      to_csv = (\<lambda>path df. None)\<rparr>"

section \<open>Properties of \<open>summarize_cv_scores\<close>\<close>

lemma filter_label_unique:
  "distinct (map fst df) \<Longrightarrow> y \<in> set df \<Longrightarrow> filter (\<lambda>c. fst c = fst y) df = [y]"
proof (induction df)
  case Nil
  then show ?case by simp
next
  case (Cons a df)
  show ?case
  proof (cases "a = y")
    case True
    have "filter (\<lambda>c. fst c = fst y) df = []"
      using Cons.prems(1) True by (auto simp: filter_empty_conv image_iff)
    with True show ?thesis by simp
  next
    case False
    with Cons.prems have yin: "y \<in> set df" by simp
    then have "fst a \<noteq> fst y" using Cons.prems(1) by force
    with Cons.IH Cons.prems(1) yin show ?thesis by simp
  qed
qed

lemma select_labels_distinct:
  "distinct (map fst df) \<Longrightarrow> set ys \<subseteq> set df \<Longrightarrow>
   concat (map (\<lambda>k. filter (\<lambda>c. fst c = k) df) (map fst ys)) = ys"
  by (induction ys) (simp_all add: filter_label_unique)

lemma summarize_cv_scores_eq:
  assumes ne: "X \<noteq> []"
    and len: "list_all (\<lambda>c. length (snd c) = n_rows X) X"
    and dist: "distinct (map (str_replace ''test_'' ''validation_'') (map fst X))"
  shows "summarize_cv_scores X name =
         Inr ((''classifier_name'', [Str name]) #
              map (\<lambda>c. if str_replace ''test_'' ''validation_'' (fst c) = ''classifier_name''
                       then (''classifier_name'', [Str name])
                       else (str_replace ''test_'' ''validation_'' (fst c), [mean_cell (snd c)])) X)"
proof -
  let ?r = "str_replace ''test_'' ''validation_''"
  let ?names = "map ?r (map fst X)"
  let ?df1 = "zip ?names (map snd (DataFrame_T (df_mean X)))"
  let ?df2 = "setitem ?df1 ''classifier_name'' (Str name)"
  let ?g = "\<lambda>c. if ?r (fst c) = ''classifier_name'' then (''classifier_name'', [Str name])
                else (?r (fst c), [mean_cell (snd c)])"
  let ?ys = "map ?g X"
  have df1: "?df1 = map (\<lambda>c. (?r (fst c), [mean_cell (snd c)])) X"
    by (induction X) (simp_all add: DataFrame_T_def df_mean_def)
  have rows1: "n_rows ?df1 = 1"
    using ne unfolding df1 by (cases X) (simp_all add: n_rows_def)
  have fst2: "map fst ?df2 = (if ''classifier_name'' \<in> set ?names then ?names
                              else ?names @ [''classifier_name''])"
    unfolding df1 by (simp add: setitem_def columns_def comp_def)
  have dist2: "distinct (map fst ?df2)"
    unfolding fst2 using dist by simp
  have cn2: "(''classifier_name'', [Str name]) \<in> set ?df2"
    unfolding df1 by (auto simp add: setitem_def columns_def rows1[unfolded df1] image_iff)
  have ys2: "set ?ys \<subseteq> set ?df2"
    unfolding df1 by (auto simp add: setitem_def columns_def image_iff)
  have fys: "map fst ?ys = ?names"
    by (simp add: comp_def if_distrib[of fst])
  have sel: "concat (map (\<lambda>k. filter (\<lambda>c. fst c = k) ?df2)
               (map fst ((''classifier_name'', [Str name]) # ?ys))) =
             (''classifier_name'', [Str name]) # ?ys"
    by (rule select_labels_distinct[OF dist2]) (use cn2 ys2 in simp)
  have keys_in: "list_all (\<lambda>k. k \<in> set (columns ?df2)) (''classifier_name'' # ?names)"
    unfolding columns_def fst2 by (simp add: list_all_iff)
  have "summarize_cv_scores X name = getitem_list ?df2 (''classifier_name'' # ?names)"
    using ne len
    by (simp add: summarize_cv_scores_def pd_DataFrame_def Series_str_replace_def
        columns_def set_columns_def DataFrame_T_def df_mean_def)
  also have "\<dots> = Inr (concat (map (\<lambda>k. filter (\<lambda>c. fst c = k) ?df2)
               (''classifier_name'' # ?names)))"
    using keys_in unfolding getitem_list_def by simp
  also have "\<dots> = Inr ((''classifier_name'', [Str name]) # ?ys)"
    using sel unfolding list.map fst_conv fys by (rule arg_cong)
  finally show ?thesis .
qed

text \<open>
  Claim C2 at the key \<open>train_test_x\<close>, which does not begin with \<open>test_\<close>: the label
  of its column is \<open>train_validation_x\<close>. The replacement is made wherever \<open>test_\<close>
  occurs in a key, not only at its beginning.
\<close>

theorem summarize_cv_scores_renames_inside_key:
  "summarize_cv_scores [(''train_test_x'', [1])] ''m'' =
     Inr [(''classifier_name'', [Str ''m'']), (''train_validation_x'', [Num 1])]"
  by (simp add: summarize_cv_scores_def pd_DataFrame_def n_rows_def Series_str_replace_def
      columns_def set_columns_def DataFrame_T_def df_mean_def mean_cell_def setitem_def
      getitem_list_def)

text \<open>
  Claim C5 on a result of \<open>cross_validate\<close> for two scorers named \<open>test_x\<close> and
  \<open>validation_x\<close>, with training scores. Replacing \<open>test_\<close> wherever it occurs gives
  the keys \<open>test_test_x\<close> and \<open>test_validation_x\<close> one label, and the keys
  \<open>train_test_x\<close> and \<open>train_validation_x\<close> one label; selecting by label then returns
  every such column twice. The row has eleven columns for six keys, and the columns of
  the two scorers no longer follow the order of the keys.
\<close>

theorem summarize_cv_scores_columns_repeated:
  "map_sum id columns
     (summarize_cv_scores
        [(''fit_time'', [1, 3]), (''score_time'', [1, 1]),
         (''test_test_x'', [0, 1]), (''train_test_x'', [1, 1]),
         (''test_validation_x'', [1, 3]), (''train_validation_x'', [3, 3])] ''m'') =
   Inr [''classifier_name'', ''fit_time'', ''score_time'',
        ''validation_validation_x'', ''validation_validation_x'',
        ''train_validation_x'', ''train_validation_x'',
        ''validation_validation_x'', ''validation_validation_x'',
        ''train_validation_x'', ''train_validation_x'']"
  by (simp add: summarize_cv_scores_def pd_DataFrame_def n_rows_def Series_str_replace_def
      columns_def set_columns_def DataFrame_T_def df_mean_def mean_cell_def setitem_def
      getitem_list_def)

text \<open>
  Claim C1 on a result of \<open>cross_validate\<close> for the two scorers \<open>test_x\<close> and
  \<open>validation_x\<close>, without training scores. The held-out values of \<open>test_x\<close> have the
  mean \<open>0.5\<close> and those of \<open>validation_x\<close> the mean \<open>1\<close>. In the row returned both
  means stand under the one label \<open>validation_validation_x\<close>, each of them twice: four
  metric columns for two per-fold sequences, and the column of a key holds the mean of
  another key.
\<close>

theorem summarize_cv_scores_means_misplaced:
  "summarize_cv_scores
     [(''fit_time'', [1, 3]), (''score_time'', [1, 1]),
      (''test_test_x'', [0, 1]), (''test_validation_x'', [1, 1])] ''m'' =
   Inr [(''classifier_name'', [Str ''m'']), (''fit_time'', [Num 2]), (''score_time'', [Num 1]),
        (''validation_validation_x'', [Num (1 / 2)]), (''validation_validation_x'', [Num 1]),
        (''validation_validation_x'', [Num (1 / 2)]), (''validation_validation_x'', [Num 1])]"
  by (simp add: summarize_cv_scores_def pd_DataFrame_def n_rows_def Series_str_replace_def
      columns_def set_columns_def DataFrame_T_def df_mean_def mean_cell_def setitem_def
      getitem_list_def)

lemma toy_summary:
  "\<exists>fit_time score_time.
   summarize_cv_scores toy_score ''toy_test'' =
   Inr [(''classifier_name'', [Str ''toy_test'']),
      (''fit_time'', [fit_time]),
      (''score_time'', [score_time]),
      (''validation_accuracy'', [Num (1 / 2)]),
      (''train_accuracy'', [Num (1 / 2)]), (''validation_f1'', [Num 0]),
      (''train_f1'', [Num 0]), (''validation_recall'', [Num 0]),
      (''train_recall'', [Num 0]), (''validation_precision'', [Num 0]),
      (''train_precision'', [Num 0]),
      (''validation_average_precision'', [Num (1 / 2)]),
      (''train_average_precision'', [Num (1 / 2)]),
      (''validation_roc_auc'', [Num (1 / 2)]),
      (''train_roc_auc'', [Num (1 / 2)])]"
  by (simp add: toy_score_def summarize_cv_scores_def pd_DataFrame_def n_rows_def Series_str_replace_def
      columns_def set_columns_def DataFrame_T_def df_mean_def mean_cell_def setitem_def
      getitem_list_def)

text \<open>
  Claim C3: on the toy dictionary of five folds, \<open>summarize_cv_scores\<close> returns a frame of
  exactly one row, with \<open>classifier_name = toy_test\<close>, \<open>validation_accuracy = 0.5\<close>,
  \<open>train_accuracy = 0.5\<close>, \<open>validation_f1 = 0\<close> and \<open>train_f1 = 0\<close>.
\<close>

theorem summarize_cv_scores_toy:
  "\<exists>df. summarize_cv_scores toy_score ''toy_test'' = Inr df \<and>
     n_rows df = 1 \<and> map (length \<circ> snd) df = replicate (length df) 1 \<and>
     column df ''classifier_name'' = [[Str ''toy_test'']] \<and>
     column df ''validation_accuracy'' = [[Num 0.5]] \<and>
     column df ''train_accuracy'' = [[Num 0.5]] \<and>
     column df ''validation_f1'' = [[Num 0.0]] \<and>
     column df ''train_f1'' = [[Num 0.0]]"
  using toy_summary by (auto simp: n_rows_def column_def)



subsection \<open>The store\<close>

lemma load_arrays_prefix:
  "load_arrays h kas = Some d \<Longrightarrow> take (length h) h' = h \<Longrightarrow> load_arrays h' kas = Some d"
proof (induction kas arbitrary: d)
  case Nil
  then show ?case by simp
next
  case (Cons ka kas)
  obtain k a where ka: "ka = (k, a)" by (cases ka)
  from Cons.prems(1) have a: "a < length h"
    unfolding ka by (simp split: if_splits)
  from arg_cong[OF Cons.prems(2), of length] have len: "length h \<le> length h'"
    by simp
  have nth: "h' ! a = h ! a"
    using a Cons.prems(2) by (metis nth_take)
  from Cons.prems(1) a obtain xs d' where
    hx: "h ! a = Ndarray xs" and d': "load_arrays h kas = Some d'" and d: "d = (k, xs) # d'"
    unfolding ka by (auto split: obj.splits)
  from Cons.IH[OF d' Cons.prems(2)] a len nth hx d show ?case
    unfolding ka by simp
qed

lemma load_dict_prefix:
  assumes "load_dict h X = Some d" and "take (length h) h' = h"
  shows "load_dict h' X = Some d"
proof -
  from assms(1) have X: "X < length h"
    by (simp add: load_dict_def split: if_splits)
  from arg_cong[OF assms(2), of length] have len: "length h \<le> length h'"
    by simp
  have nth: "h' ! X = h ! X"
    using X assms(2) by (metis nth_take)
  from assms(1) X obtain kas where hx: "h ! X = PyDict kas" and la: "load_arrays h kas = Some d"
    by (auto simp: load_dict_def split: obj.splits)
  from load_arrays_prefix[OF la assms(2)] X len nth hx show ?thesis
    by (simp add: load_dict_def)
qed

lemma summarize_cv_scores_heap_prefix:
  "take (length h) (snd (summarize_cv_scores_heap X classifier_name h)) = h"
  by (simp add: summarize_cv_scores_heap_def alloc_def store_def Let_def
      split: option.splits sum.splits)

text \<open>
  Claim C7: a call of \<open>summarize_cv_scores\<close> leaves every object that was in the store
  before the call as it was, whether it returns or raises; so the dictionary read at the
  address \<open>X\<close>, its keys and its arrays, is the same after the call.
\<close>

theorem summarize_cv_scores_no_mutation:
  "take (length h) (snd (summarize_cv_scores_heap X classifier_name h)) = h \<and>
   load_dict (snd (summarize_cv_scores_heap X classifier_name h)) X = load_dict h X"
proof (cases "load_dict h X")
  case None
  then have "snd (summarize_cv_scores_heap X classifier_name h) = h"
    by (simp add: summarize_cv_scores_heap_def)
  then show ?thesis by simp
next
  case (Some d)
  from load_dict_prefix[OF Some summarize_cv_scores_heap_prefix] Some
    summarize_cv_scores_heap_prefix
  show ?thesis by simp
qed

text \<open>On a store that holds the dictionary, the frame returned is the one computed above.\<close>

lemma summarize_cv_scores_heap_result:
  assumes "load_dict h X = Some d"
  shows "map_sum id (load_frame (snd (summarize_cv_scores_heap X classifier_name h)))
           (fst (summarize_cv_scores_heap X classifier_name h)) =
         summarize_cv_scores d classifier_name"
  using assms
  by (simp add: summarize_cv_scores_heap_def summarize_cv_scores_def alloc_def store_def
      load_frame_def Let_def nth_append split: sum.splits)

section \<open>Properties of the two declarations\<close>

lemma feature_names_distinct:
  "(case get_feature_lists of (n1, n2, c1, c2, d, b) \<Rightarrow> distinct (n1 @ n2 @ c1 @ c2 @ d @ b))"
  by (simp add: get_feature_lists_def)

text \<open>
  Claim C8: \<open>get_feature_lists\<close> takes no argument and reads no state, so its value is
  one fixed tuple of six lists. No name occurs twice in a list, and no name occurs in two
  lists.
\<close>

theorem get_feature_lists_disjoint:
  "(case get_feature_lists of (numeric_general, numeric_special, categorical_general,
        categorical_special, drop_features, binary_features) \<Rightarrow>
      distinct numeric_general \<and> distinct numeric_special \<and> distinct categorical_general \<and>
      distinct categorical_special \<and> distinct drop_features \<and> distinct binary_features \<and>
      set numeric_general \<inter> set numeric_special = {} \<and>
      set numeric_general \<inter> set categorical_general = {} \<and>
      set numeric_general \<inter> set categorical_special = {} \<and>
      set numeric_general \<inter> set drop_features = {} \<and>
      set numeric_general \<inter> set binary_features = {} \<and>
      set numeric_special \<inter> set categorical_general = {} \<and>
      set numeric_special \<inter> set categorical_special = {} \<and>
      set numeric_special \<inter> set drop_features = {} \<and>
      set numeric_special \<inter> set binary_features = {} \<and>
      set categorical_general \<inter> set categorical_special = {} \<and>
      set categorical_general \<inter> set drop_features = {} \<and>
      set categorical_general \<inter> set binary_features = {} \<and>
      set categorical_special \<inter> set drop_features = {} \<and>
      set categorical_special \<inter> set binary_features = {} \<and>
      set drop_features \<inter> set binary_features = {} \<and>
      map length [numeric_general, numeric_special, categorical_general,
        categorical_special, drop_features, binary_features] = [14, 2, 8, 1, 4, 1])"
  by (simp add: get_feature_lists_def)

text \<open>
  Claim C10: for \<open>random_forest\<close> the grid with the two ranges is returned; for each of
  the other four accepted names \<open>None\<close> is returned; for every other string the
  assertion fails with the message \<open>Invalid model name...\<close>.
\<close>

theorem get_hyperparameter_grid_cases:
  "get_hyperparameter_grid ''random_forest'' =
     Inr (Some [(''randomforestclassifier__n_estimators'', [500, 600, 700, 800, 900, 1000]),
                (''randomforestclassifier__min_samples_split'', [4, 5, 6, 7, 8, 9, 10])]) \<and>
   (model_name \<in> {''decision_tree'', ''knn'', ''svc'', ''logistic_regression''} \<longrightarrow>
      get_hyperparameter_grid model_name = Inr None) \<and>
   (model_name \<notin> {''decision_tree'', ''knn'', ''svc'', ''logistic_regression'',
        ''random_forest''} \<longrightarrow>
      get_hyperparameter_grid model_name = Inl (AssertionError ''Invalid model name...''))"
proof -
  have a1: "np_arange 500 1001 100 = [500, 600, 700, 800, 900, 1000]"
    by code_simp
  have a2: "np_arange 4 11 1 = [4, 5, 6, 7, 8, 9, 10]"
    by code_simp
  show ?thesis
    unfolding get_hyperparameter_grid_def a1 a2 by auto
qed

theorem get_hyperparameter_grid_cases_witness:
  "get_hyperparameter_grid ''knn'' = Inr None \<and>
   get_hyperparameter_grid ''xgboost'' = Inl (AssertionError ''Invalid model name...'')"
  using get_hyperparameter_grid_cases[of "''knn''"] get_hyperparameter_grid_cases[of "''xgboost''"]
  by simp


section \<open>Properties of \<open>main\<close>\<close>

subsection \<open>The report\<close>

lemma summarize_cv_scores_row:
  assumes ne: "X \<noteq> []"
    and len: "list_all (\<lambda>c. length (snd c) = n_rows X) X"
    and dist: "distinct (''classifier_name'' # map (str_replace ''test_'' ''validation_'') (map fst X))"
  shows "summarize_cv_scores X name =
         Inr ((''classifier_name'', [Str name]) #
              map (\<lambda>c. (str_replace ''test_'' ''validation_'' (fst c), [mean_cell (snd c)])) X)"
proof -
  let ?r = "str_replace ''test_'' ''validation_''"
  from dist have d: "distinct (map ?r (map fst X))"
    and nocn: "''classifier_name'' \<notin> set (map ?r (map fst X))" by simp_all
  have ys: "map (\<lambda>c. if ?r (fst c) = ''classifier_name'' then (''classifier_name'', [Str name])
                else (?r (fst c), [mean_cell (snd c)])) X =
            map (\<lambda>c. (?r (fst c), [mean_cell (snd c)])) X"
    using nocn by (intro map_cong) (auto simp: image_iff)
  show ?thesis
    using summarize_cv_scores_eq[OF ne len d, of name] unfolding ys .
qed


lemma append_rows_columns:
  "columns a = columns b \<Longrightarrow> columns (append_rows a b) = columns a"
proof (induction a arbitrary: b)
  case Nil
  then show ?case by (simp add: append_rows_def columns_def)
next
  case (Cons c a)
  then show ?case by (cases b) (auto simp: append_rows_def columns_def)
qed

lemma append_rows_lengths:
  "list_all (\<lambda>c. length (snd c) = i) a \<Longrightarrow> list_all (\<lambda>c. length (snd c) = j) b \<Longrightarrow>
   list_all (\<lambda>c. length (snd c) = i + j) (append_rows a b)"
proof (induction a arbitrary: b)
  case Nil
  then show ?case by (simp add: append_rows_def)
next
  case (Cons c a)
  then show ?case by (cases b) (auto simp: append_rows_def)
qed

lemma iloc_row_append_rows_old:
  "columns a = columns b \<Longrightarrow> list_all (\<lambda>c. length (snd c) = k) a \<Longrightarrow> i < k \<Longrightarrow>
   iloc_row (append_rows a b) i = iloc_row a i"
proof (induction a arbitrary: b)
  case Nil
  then show ?case by (simp add: append_rows_def iloc_row_def columns_def)
next
  case (Cons c a)
  then show ?case
    by (cases b) (auto simp: append_rows_def iloc_row_def columns_def nth_append)
qed

lemma iloc_row_append_rows_new:
  "columns a = columns b \<Longrightarrow> list_all (\<lambda>c. length (snd c) = k) a \<Longrightarrow>
   list_all (\<lambda>c. length (snd c) = 1) b \<Longrightarrow> iloc_row (append_rows a b) k = b"
proof (induction a arbitrary: b)
  case Nil
  then show ?case by (simp add: append_rows_def iloc_row_def columns_def)
next
  case (Cons c a)
  show ?case
  proof (cases b)
    case Nil
    with Cons.prems show ?thesis by (simp add: columns_def)
  next
    case (Cons d b')
    from Cons.prems(3) Cons have "length (snd d) = 1" by simp
    then obtain x where x: "snd d = [x]" by (cases "snd d") auto
    have d: "d = (fst d, [x])" using x by (cases d) simp
    from Cons.prems Cons Cons.IH[of b'] x d show ?thesis
      by (auto simp: append_rows_def iloc_row_def columns_def nth_append)
  qed
qed

lemma iloc_row_single:
  "list_all (\<lambda>c. length (snd c) = 1) r \<Longrightarrow> iloc_row r 0 = r"
proof (induction r)
  case Nil
  then show ?case by (simp add: iloc_row_def)
next
  case (Cons d r)
  from Cons.prems have "length (snd d) = 1" by simp
  then obtain x where x: "snd d = [x]" by (cases "snd d") auto
  have d: "d = (fst d, [x])" using x by (cases d) simp
  from Cons x d show ?case by (auto simp: iloc_row_def)
qed

lemma foldl_append_rows:
  assumes "\<forall>r \<in> set (r0 # rs). columns r = L \<and> list_all (\<lambda>c. length (snd c) = 1) r"
  shows "columns (foldl append_rows r0 rs) = L \<and>
         list_all (\<lambda>c. length (snd c) = Suc (length rs)) (foldl append_rows r0 rs) \<and>
         (\<forall>i \<le> length rs. iloc_row (foldl append_rows r0 rs) i = (r0 # rs) ! i)"
  using assms
proof (induction rs rule: rev_induct)
  case Nil
  then show ?case by (simp add: iloc_row_single)
next
  case (snoc r rs)
  let ?R = "foldl append_rows r0 rs"
  from snoc.prems have prem: "\<forall>r \<in> set (r0 # rs). columns r = L \<and> list_all (\<lambda>c. length (snd c) = 1) r"
    and r: "columns r = L" "list_all (\<lambda>c. length (snd c) = 1) r"
    by auto
  from snoc.IH[OF prem] have c: "columns ?R = L"
    and l: "list_all (\<lambda>c. length (snd c) = Suc (length rs)) ?R"
    and rows: "\<forall>i \<le> length rs. iloc_row ?R i = (r0 # rs) ! i"
    by auto
  have cr: "columns ?R = columns r" using c r by simp
  have c': "columns (append_rows ?R r) = L"
    using append_rows_columns[OF cr] c by simp
  have l': "list_all (\<lambda>c. length (snd c) = Suc (length (rs @ [r]))) (append_rows ?R r)"
    using append_rows_lengths[OF l r(2)] by simp
  have rows': "iloc_row (append_rows ?R r) i = (r0 # rs @ [r]) ! i" if "i \<le> length (rs @ [r])" for i
  proof (cases "i \<le> length rs")
    case True
    then have "i < Suc (length rs)" by simp
    have "(r0 # rs @ [r]) ! i = (r0 # rs) ! i"
      using True by (cases i) (simp_all add: nth_append)
    with iloc_row_append_rows_old[OF cr l \<open>i < Suc (length rs)\<close>] rows True
    show ?thesis by simp
  next
    case False
    with that have i: "i = Suc (length rs)" by simp
    from iloc_row_append_rows_new[OF cr l r(2)] show ?thesis
      unfolding i by (simp add: nth_append)
  qed
  from c' l' rows' show ?case by simp
qed

lemma evaluate_models_run:
  assumes cv: "\<forall>clf \<in> set (map snd ms).
           cross_validate w (Pipeline make_preprocessor clf) X y eval_metrics n =
             Inr (res (Pipeline make_preprocessor clf)) \<and>
           columns (res (Pipeline make_preprocessor clf)) = ks \<and>
           list_all (\<lambda>c. length (snd c) = n_rows (res (Pipeline make_preprocessor clf)))
             (res (Pipeline make_preprocessor clf))"
    and ks: "ks \<noteq> []"
    and dist: "distinct (''classifier_name'' # map (str_replace ''test_'' ''validation_'') ks)"
    and labels: "columns df = ''classifier_name'' # map (str_replace ''test_'' ''validation_'') ks"
  shows "evaluate_models w vb X y n ms tr df =
     (tr @ concat (map (\<lambda>(m, clf).
              (if vb then [Print (Text (''Evaluating '' @ m))] else []) @
              [CrossValidate (Pipeline make_preprocessor clf) n]) ms),
      Inr (foldl append_rows df (map (\<lambda>(m, clf).
              (''classifier_name'', [Str m]) #
              map (\<lambda>c. (str_replace ''test_'' ''validation_'' (fst c), [mean_cell (snd c)]))
                (res (Pipeline make_preprocessor clf))) ms)))"
  using cv labels
proof (induction ms arbitrary: tr df)
  case Nil
  then show ?case by simp
next
  case (Cons mc ms)
  obtain m clf where mc: "mc = (m, clf)" by (cases mc)
  let ?r = "str_replace ''test_'' ''validation_''"
  let ?pipe = "Pipeline make_preprocessor clf"
  let ?row = "(''classifier_name'', [Str m]) #
              map (\<lambda>c. (?r (fst c), [mean_cell (snd c)])) (res ?pipe)"
  from Cons.prems(1) have r: "cross_validate w ?pipe X y eval_metrics n = Inr (res ?pipe)"
    and rk: "columns (res ?pipe) = ks"
    and rl: "list_all (\<lambda>c. length (snd c) = n_rows (res ?pipe)) (res ?pipe)"
    and rest: "\<forall>clf \<in> set (map snd ms).
           cross_validate w (Pipeline make_preprocessor clf) X y eval_metrics n =
             Inr (res (Pipeline make_preprocessor clf)) \<and>
           columns (res (Pipeline make_preprocessor clf)) = ks \<and>
           list_all (\<lambda>c. length (snd c) = n_rows (res (Pipeline make_preprocessor clf)))
             (res (Pipeline make_preprocessor clf))"
    unfolding mc by simp_all
  from rk ks have rne: "res ?pipe \<noteq> []" by (auto simp: columns_def)
  have dr: "distinct (''classifier_name'' # map ?r (map fst (res ?pipe)))"
    using dist rk by (simp only: columns_def)
  have sm: "summarize_cv_scores (res ?pipe) m = Inr ?row"
    by (rule summarize_cv_scores_row[OF rne rl dr])
  have "columns ?row = ''classifier_name'' # map ?r (map fst (res ?pipe))"
    by (simp add: columns_def comp_def)
  then have crow: "columns ?row = ''classifier_name'' # map ?r ks"
    using rk by (simp only: columns_def)
  have same: "columns df = columns ?row"
    using Cons.prems(2) crow by simp
  have cc: "pd_concat df ?row = Inr (append_rows df ?row)"
    using same by (simp add: pd_concat_def)
  have l2: "columns (append_rows df ?row) = ''classifier_name'' # map ?r ks"
    using append_rows_columns[OF same] Cons.prems(2) by simp
  have step: "evaluate_models w vb X y n (mc # ms) tr df =
      evaluate_models w vb X y n ms
        (tr @ (if vb then [Print (Text (''Evaluating '' @ m))] else []) @
           [CrossValidate ?pipe n]) (append_rows df ?row)"
    unfolding mc using r sm cc by (simp only: evaluate_models.simps Let_def sum.case append_assoc)
  note run = step[unfolded Cons.IH[OF rest l2]]
  show ?case
    unfolding run unfolding mc by simp
qed



lemma keys_eval_metrics:
  "cross_validate_keys eval_metrics =
     [''fit_time'', ''score_time'', ''test_f1'', ''train_f1'', ''test_precision'',
      ''train_precision'', ''test_recall'', ''train_recall'', ''test_accuracy'',
      ''train_accuracy'']"
  by (simp add: cross_validate_keys_def eval_metrics_def)

lemma labels_eval_metrics:
  "''classifier_name'' # map (str_replace ''test_'' ''validation_'') (cross_validate_keys eval_metrics) =
     [''classifier_name'', ''fit_time'', ''score_time'', ''validation_f1'', ''train_f1'',
      ''validation_precision'', ''train_precision'', ''validation_recall'', ''train_recall'',
      ''validation_accuracy'', ''train_accuracy'']"
  unfolding keys_eval_metrics by simp

lemma foldl_append_rows_hd:
  assumes "\<forall>r \<in> set rs. r \<noteq> [] \<and> fst (hd r) = k"
  shows "\<exists>rest. foldl append_rows ((k, u) # r0) rs =
           (k, u @ concat (map (\<lambda>r. snd (hd r)) rs)) # rest"
  using assms
proof (induction rs arbitrary: u r0)
  case Nil
  then show ?case by simp
next
  case (Cons r rs)
  from Cons.prems obtain v rest where r: "r = (k, v) # rest"
    by (cases r) auto
  have step: "append_rows ((k, u) # r0) ((k, v) # rest) = (k, u @ v) # append_rows r0 rest"
    by (simp add: append_rows_def)
  from Cons.prems have "\<forall>r \<in> set rs. r \<noteq> [] \<and> fst (hd r) = k" by simp
  from Cons.IH[OF this, of "u @ v" "append_rows r0 rest"] show ?case
    unfolding r by (simp add: step)
qed

lemma column_hd_distinct:
  assumes "distinct (columns ((k, c) # rest))"
  shows "column ((k, c) # rest) k = [c]"
proof -
  from assms have "k \<notin> set (map fst rest)" by (simp add: columns_def)
  then have "filter (\<lambda>x. fst x = k) rest = []"
    by (auto simp: filter_empty_conv image_iff)
  then show ?thesis by (simp add: column_def)
qed

text \<open>
  Claim C4. Let both options be absent or integers, let the file be read and hold the
  label column, let \<open>cross_validate\<close> return, for the baseline and for each of the five
  pipelines, a result \<open>res e\<close> with the keys of the four scoring names and arrays of one
  length, and let the report file be writable. Then \<open>main\<close> returns, and:
  \<^item> it calls \<open>cross_validate\<close> once for the baseline and then once for each model in the
    order of \<open>models\<close>, and writes one report;
  \<^item> every column of the report has six cells, and row \<open>i\<close> of the report is the row that
    \<open>summarize_cv_scores\<close> returns for the result and the name of the \<open>i\<close>-th estimator;
  \<^item> so the \<open>classifier_name\<close> column reads Dummy Classifier, Decision Tree,
    k_Nearest_Neighbor, SVC (RBF kernel), Logistic Regression, Random Forest.
  This holds for every \<open>cross_validate\<close>: the loop calls it for one model after the other,
  and nothing it does inside changes the order of the rows.
\<close>

theorem main_report_order:
  assumes seed: "int_or_default w 1 chosen_seed = Inr seed"
    and folds: "int_or_default w 5 n_cv_folds = Inr n"
    and rd: "read_csv w train_data_file = Inr train_df"
    and dc: "drop_columns train_df [''is_canceled''] = Inr X_train"
    and gi: "getitem train_df ''is_canceled'' = Inr y_train"
    and cv: "\<forall>e \<in> set (Plain (DummyClassifier ''stratified'' seed) #
                    map (\<lambda>(m, clf). Pipeline make_preprocessor clf) (models seed)).
               cross_validate w e X_train y_train eval_metrics n = Inr (res e) \<and>
               columns (res e) = cross_validate_keys eval_metrics \<and>
               list_all (\<lambda>c. length (snd c) = n_rows (res e)) (res e)"
    and wr: "\<forall>df. to_csv w report_file df = None"
  shows "\<exists>report.
           main w train_data_file report_file n_cv_folds chosen_seed verbose =
             ([ReadCsv train_data_file] @
              (if verbose = PyStr ''True''
               then [Print (Text ''Training Data Imported...''),
                     Print (Text ''Preprocessor Created...'')]
               else []) @
              [CrossValidate (Plain (DummyClassifier ''stratified'' seed)) n] @
              concat (map (\<lambda>(m, clf).
                 (if verbose = PyStr ''True'' then [Print (Text (''Evaluating '' @ m))] else []) @
                 [CrossValidate (Pipeline make_preprocessor clf) n]) (models seed)) @
              (if verbose = PyStr ''True'' then [Print (Text ''Evaluation Complete...'')] else []) @
              [ToCsv report_file report, Print (Text ''Report generated and saved...'')],
              Returned) \<and>
           columns report =
             [''classifier_name'', ''fit_time'', ''score_time'', ''validation_f1'', ''train_f1'',
              ''validation_precision'', ''train_precision'', ''validation_recall'',
              ''train_recall'', ''validation_accuracy'', ''train_accuracy''] \<and>
           list_all (\<lambda>c. length (snd c) = 6) report \<and>
           column report ''classifier_name'' =
             [map Str [''Dummy Classifier'', ''Decision Tree'', ''k_Nearest_Neighbor'',
                       ''SVC (RBF kernel)'', ''Logistic Regression'', ''Random Forest'']] \<and>
           map (\<lambda>(name, e). summarize_cv_scores (res e) name)
             (zip (''Dummy Classifier'' # map fst (models seed))
                  (Plain (DummyClassifier ''stratified'' seed) #
                   map (\<lambda>(m, clf). Pipeline make_preprocessor clf) (models seed))) =
           map (\<lambda>i. Inr (iloc_row report i)) [0 ..< 6]"
proof -
  let ?r = "str_replace ''test_'' ''validation_''"
  let ?vb = "verbose = PyStr ''True''"
  let ?ks = "cross_validate_keys eval_metrics"
  let ?L = "''classifier_name'' # map ?r ?ks"
  let ?dummy = "Plain (DummyClassifier ''stratified'' seed)"
  let ?row = "\<lambda>name e. (''classifier_name'', [Str name]) #
                map (\<lambda>c. (?r (fst c), [mean_cell (snd c)])) (res e)"
  have ks: "?ks \<noteq> []" by (simp add: keys_eval_metrics)
  have dist: "distinct ?L" unfolding labels_eval_metrics by simp
  have ok: "cross_validate w e X_train y_train eval_metrics n = Inr (res e) \<and>
            columns (res e) = ?ks \<and>
            list_all (\<lambda>c. length (snd c) = n_rows (res e)) (res e)"
    if "e \<in> set (?dummy # map (\<lambda>(m, clf). Pipeline make_preprocessor clf) (models seed))" for e
    using cv that by blast
  have row: "summarize_cv_scores (res e) name = Inr (?row name e) \<and> columns (?row name e) = ?L \<and>
             list_all (\<lambda>c. length (snd c) = 1) (?row name e)"
    if "e \<in> set (?dummy # map (\<lambda>(m, clf). Pipeline make_preprocessor clf) (models seed))"
    for e name
  proof -
    from ok[OF that] have rk: "columns (res e) = ?ks"
      and rl: "list_all (\<lambda>c. length (snd c) = n_rows (res e)) (res e)" by simp_all
    from rk ks have rne: "res e \<noteq> []" by (auto simp: columns_def)
    have dr: "distinct (''classifier_name'' # map ?r (map fst (res e)))"
      using dist rk by (simp only: columns_def)
    have "columns (?row name e) = ''classifier_name'' # map ?r (map fst (res e))"
      by (simp add: columns_def comp_def)
    then have "columns (?row name e) = ?L"
      using rk by (simp only: columns_def)
    moreover have "list_all (\<lambda>c. length (snd c) = 1) (?row name e)"
      by (simp add: list_all_iff)
    ultimately show ?thesis
      using summarize_cv_scores_row[OF rne rl dr, of name] by simp
  qed
  have d_in: "?dummy \<in> set (?dummy # map (\<lambda>(m, clf). Pipeline make_preprocessor clf) (models seed))"
    by simp
  let ?r0 = "?row ''Dummy Classifier'' ?dummy"
  let ?rs = "map (\<lambda>(m, clf). ?row m (Pipeline make_preprocessor clf)) (models seed)"
  let ?report = "foldl append_rows ?r0 ?rs"
  let ?tr3 = "([ReadCsv train_data_file] @
      (if ?vb then [Print (Text ''Training Data Imported...'')] else [])) @
      (if ?vb then [Print (Text ''Preprocessor Created...'')] else []) @
      [CrossValidate ?dummy n]"
  have cvm: "\<forall>clf \<in> set (map snd (models seed)).
           cross_validate w (Pipeline make_preprocessor clf) X_train y_train eval_metrics n =
             Inr (res (Pipeline make_preprocessor clf)) \<and>
           columns (res (Pipeline make_preprocessor clf)) = ?ks \<and>
           list_all (\<lambda>c. length (snd c) = n_rows (res (Pipeline make_preprocessor clf)))
             (res (Pipeline make_preprocessor clf))"
    using ok by (auto simp: models_def)
  have c0: "columns ?r0 = ?L" using row[OF d_in] by simp
  note ev = evaluate_models_run[OF cvm ks dist c0, of ?vb ?tr3]
  have m: "main w train_data_file report_file n_cv_folds chosen_seed verbose =
      ((?tr3 @ concat (map (\<lambda>(m, clf).
                 (if ?vb then [Print (Text (''Evaluating '' @ m))] else []) @
                 [CrossValidate (Pipeline make_preprocessor clf) n]) (models seed))) @
        (if ?vb then [Print (Text ''Evaluation Complete...'')] else []) @
        [ToCsv report_file ?report] @ [Print (Text ''Report generated and saved...'')],
       Returned)"
    using seed folds rd dc gi ok[OF d_in] row[OF d_in, of "''Dummy Classifier''"] ev wr
    by (cases ?vb) (simp_all add: main_def main_evaluation_def Let_def)
  have all: "\<forall>r \<in> set (?r0 # ?rs). columns r = ?L \<and> list_all (\<lambda>c. length (snd c) = 1) r"
    using row by (auto simp: models_def)
  note st = foldl_append_rows[OF all]
  have len: "length ?rs = 5" by (simp add: models_def)
  from st have cols: "columns ?report = ?L"
    and lens: "list_all (\<lambda>c. length (snd c) = Suc (length ?rs)) ?report"
    and rows: "\<forall>i \<le> length ?rs. iloc_row ?report i = (?r0 # ?rs) ! i"
    by blast+
  have lens6: "list_all (\<lambda>c. length (snd c) = 6) ?report"
    using lens unfolding len by simp
  have rows6: "map (\<lambda>i. iloc_row ?report i) [0 ..< 6] = ?r0 # ?rs"
  proof (rule nth_equalityI)
    show "length (map (\<lambda>i. iloc_row ?report i) [0 ..< 6]) = length (?r0 # ?rs)"
      using len by simp
  next
    fix i assume "i < length (map (\<lambda>i. iloc_row ?report i) [0 ..< 6])"
    then have i: "i < 6" by simp
    then have "i \<le> length ?rs" using len by simp
    with rows have "iloc_row ?report i = (?r0 # ?rs) ! i" by blast
    with i show "map (\<lambda>i. iloc_row ?report i) [0 ..< 6] ! i = (?r0 # ?rs) ! i"
      by simp
  qed
  have sums: "map (\<lambda>(name, e). summarize_cv_scores (res e) name)
             (zip (''Dummy Classifier'' # map fst (models seed))
                  (?dummy # map (\<lambda>(m, clf). Pipeline make_preprocessor clf) (models seed))) =
           map Inr (?r0 # ?rs)"
    using row by (simp add: models_def)
  have rowsum: "map (\<lambda>(name, e). summarize_cv_scores (res e) name)
             (zip (''Dummy Classifier'' # map fst (models seed))
                  (?dummy # map (\<lambda>(m, clf). Pipeline make_preprocessor clf) (models seed))) =
           map (\<lambda>i. Inr (iloc_row ?report i)) [0 ..< 6]"
    unfolding sums rows6[symmetric] by (simp only: map_map comp_def)
  have r0row: "iloc_row ?report 0 = ?r0" using rows by simp
  have hd: "\<forall>r \<in> set ?rs. r \<noteq> [] \<and> fst (hd r) = ''classifier_name''"
    by (auto simp: models_def)
  from foldl_append_rows_hd[OF hd, of "[Str ''Dummy Classifier'']"] obtain rest where
    rep: "?report = (''classifier_name'', [Str ''Dummy Classifier''] @
            concat (map (\<lambda>r. snd (hd r)) ?rs)) # rest"
    by blast
  have "distinct (columns ?report)" using cols dist by simp
  from column_hd_distinct[OF this[unfolded rep]]
  have cn: "column ?report ''classifier_name'' =
             [map Str [''Dummy Classifier'', ''Decision Tree'', ''k_Nearest_Neighbor'',
                       ''SVC (RBF kernel)'', ''Logistic Regression'', ''Random Forest'']]"
    unfolding rep[symmetric] by (simp add: models_def)
  have tr: "main w train_data_file report_file n_cv_folds chosen_seed verbose =
             ([ReadCsv train_data_file] @
              (if verbose = PyStr ''True''
               then [Print (Text ''Training Data Imported...''),
                     Print (Text ''Preprocessor Created...'')]
               else []) @
              [CrossValidate (Plain (DummyClassifier ''stratified'' seed)) n] @
              concat (map (\<lambda>(m, clf).
                 (if verbose = PyStr ''True'' then [Print (Text (''Evaluating '' @ m))] else []) @
                 [CrossValidate (Pipeline make_preprocessor clf) n]) (models seed)) @
              (if verbose = PyStr ''True'' then [Print (Text ''Evaluation Complete...'')] else []) @
              [ToCsv report_file ?report, Print (Text ''Report generated and saved...'')],
              Returned)"
    unfolding m by (cases ?vb) simp_all
  from tr cols[unfolded labels_eval_metrics] lens6 cn rowsum show ?thesis
    by (intro exI[of _ ?report] conjI)
qed


theorem main_report_order_witness:
  "\<exists>report.
     main toy_world ''train.csv'' ''report.csv'' (PyStr ''2'') (PyStr ''7'') (PyStr ''True'') =
       ([ReadCsv ''train.csv''] @
        (if PyStr ''True'' = PyStr ''True''
         then [Print (Text ''Training Data Imported...''),
               Print (Text ''Preprocessor Created...'')]
         else []) @
        [CrossValidate (Plain (DummyClassifier ''stratified'' 7)) 2] @
        concat (map (\<lambda>(m, clf).
           (if PyStr ''True'' = PyStr ''True'' then [Print (Text (''Evaluating '' @ m))] else []) @
           [CrossValidate (Pipeline make_preprocessor clf) 2]) (models 7)) @
        (if PyStr ''True'' = PyStr ''True'' then [Print (Text ''Evaluation Complete...'')] else []) @
        [ToCsv ''report.csv'' report, Print (Text ''Report generated and saved...'')],
        Returned) \<and>
     columns report =
       [''classifier_name'', ''fit_time'', ''score_time'', ''validation_f1'', ''train_f1'',
        ''validation_precision'', ''train_precision'', ''validation_recall'',
        ''train_recall'', ''validation_accuracy'', ''train_accuracy''] \<and>
     list_all (\<lambda>c. length (snd c) = 6) report \<and>
     column report ''classifier_name'' =
       [map Str [''Dummy Classifier'', ''Decision Tree'', ''k_Nearest_Neighbor'',
                 ''SVC (RBF kernel)'', ''Logistic Regression'', ''Random Forest'']] \<and>
     map (\<lambda>(name, e). summarize_cv_scores ((\<lambda>e. toy_cv_scores) e) name)
       (zip (''Dummy Classifier'' # map fst (models 7))
            (Plain (DummyClassifier ''stratified'' 7) #
             map (\<lambda>(m, clf). Pipeline make_preprocessor clf) (models 7))) =
     map (\<lambda>i. Inr (iloc_row report i)) [0 ..< 6]"
proof (rule main_report_order[where seed = 7 and n = 2 and res = "\<lambda>e. toy_cv_scores"
      and train_df = "[(''lead_time'', [''342'', ''737'']), (''is_canceled'', [''0'', ''1''])]"
      and X_train = "[(''lead_time'', [''342'', ''737''])]" and y_train = "[''0'', ''1'']"])
  show "int_or_default toy_world 1 (PyStr ''7'') = Inr 7"
    by (simp add: int_or_default_def py_int_def toy_world_def)
  show "int_or_default toy_world 5 (PyStr ''2'') = Inr 2"
    by (simp add: int_or_default_def py_int_def toy_world_def)
  show "read_csv toy_world ''train.csv'' =
        Inr [(''lead_time'', [''342'', ''737'']), (''is_canceled'', [''0'', ''1''])]"
    by (simp add: toy_world_def)
  show "drop_columns [(''lead_time'', [''342'', ''737'']), (''is_canceled'', [''0'', ''1''])]
          [''is_canceled''] = Inr [(''lead_time'', [''342'', ''737''])]"
    by (simp add: drop_columns_def columns_def)
  show "getitem [(''lead_time'', [''342'', ''737'']), (''is_canceled'', [''0'', ''1''])]
          ''is_canceled'' = Inr [''0'', ''1'']"
    by (simp add: getitem_def column_def)
  show "\<forall>e \<in> set (Plain (DummyClassifier ''stratified'' 7) #
                    map (\<lambda>(m, clf). Pipeline make_preprocessor clf) (models 7)).
          cross_validate toy_world e [(''lead_time'', [''342'', ''737''])] [''0'', ''1'']
            eval_metrics 2 = Inr toy_cv_scores \<and>
          columns toy_cv_scores = cross_validate_keys eval_metrics \<and>
          list_all (\<lambda>c. length (snd c) = n_rows toy_cv_scores) toy_cv_scores"
    by (simp add: toy_world_def keys_eval_metrics)
      (simp add: toy_cv_scores_def columns_def n_rows_def)
  show "\<forall>df. to_csv toy_world ''report.csv'' df = None"
    by (simp add: toy_world_def)
qed


subsection \<open>The options\<close>

lemma py_int_error:
  "v \<noteq> PyNone \<Longrightarrow> py_int w v = Inl e \<Longrightarrow> e = ValueError"
  by (cases v) (auto simp: py_int_def split: option.splits)

text \<open>
  Claim C6, as the code has it. A seed that is present and that \<open>int()\<close> rejects ends
  the run with \<open>exit(-2)\<close>. A fold count that is present and that \<open>int()\<close> rejects
  ends the run with \<open>exit(-3)\<close>, provided the seed was absent or an integer: the seed
  is checked first. In both cases the run consists of the three printed lines only: no
  file is read, nothing is evaluated, nothing is written. This holds whatever strings
  \<open>int()\<close> accepts.
\<close>

theorem main_invalid_option:
  "(chosen_seed \<noteq> PyNone \<and> py_int w chosen_seed = Inl e \<longrightarrow>
      main w train_data_file report_file n_cv_folds chosen_seed verbose =
        ([Print (Text ''Value of chosen_seed should be int''),
          Print (ExcMessage ValueError), Print (ExcType ValueError)], Exit (- 2))) \<and>
   (int_or_default w 1 chosen_seed = Inr seed \<and> n_cv_folds \<noteq> PyNone \<and> py_int w n_cv_folds = Inl e \<longrightarrow>
      main w train_data_file report_file n_cv_folds chosen_seed verbose =
        ([Print (Text ''Value of n_cv_folds should be int''),
          Print (ExcMessage ValueError), Print (ExcType ValueError)], Exit (- 3)))"
proof (intro conjI impI)
  assume a: "chosen_seed \<noteq> PyNone \<and> py_int w chosen_seed = Inl e"
  then have "e = ValueError" using py_int_error by blast
  with a show "main w train_data_file report_file n_cv_folds chosen_seed verbose =
        ([Print (Text ''Value of chosen_seed should be int''),
          Print (ExcMessage ValueError), Print (ExcType ValueError)], Exit (- 2))"
    by (simp add: main_def int_or_default_def)
next
  assume a: "int_or_default w 1 chosen_seed = Inr seed \<and> n_cv_folds \<noteq> PyNone \<and>
             py_int w n_cv_folds = Inl e"
  then have "e = ValueError" using py_int_error by blast
  with a show "main w train_data_file report_file n_cv_folds chosen_seed verbose =
        ([Print (Text ''Value of n_cv_folds should be int''),
          Print (ExcMessage ValueError), Print (ExcType ValueError)], Exit (- 3))"
    by (simp add: main_def int_or_default_def)
qed

lemma toy_int:
  "py_int toy_world (PyStr ''abc'') = Inl ValueError"
  "py_int toy_world (PyStr ''five'') = Inl ValueError"
  "py_int toy_world (PyStr ''7'') = Inr 7"
  by (simp_all add: py_int_def toy_world_def)

theorem main_invalid_option_witness:
  "main toy_world ''train.csv'' ''report.csv'' PyNone (PyStr ''abc'') PyNone =
     ([Print (Text ''Value of chosen_seed should be int''),
       Print (ExcMessage ValueError), Print (ExcType ValueError)], Exit (- 2)) \<and>
   main toy_world ''train.csv'' ''report.csv'' (PyStr ''five'') (PyStr ''7'') PyNone =
     ([Print (Text ''Value of n_cv_folds should be int''),
       Print (ExcMessage ValueError), Print (ExcType ValueError)], Exit (- 3))"
  using main_invalid_option[where chosen_seed = "PyStr ''abc''" and e = ValueError
      and w = toy_world and train_data_file = "''train.csv''" and report_file = "''report.csv''"
      and n_cv_folds = PyNone and verbose = PyNone and seed = 0]
    main_invalid_option[where chosen_seed = "PyStr ''7''" and e = ValueError
      and w = toy_world and train_data_file = "''train.csv''" and report_file = "''report.csv''"
      and n_cv_folds = "PyStr ''five''" and verbose = PyNone and seed = 7]
  by (simp add: int_or_default_def toy_int)

text \<open>
  Claim C6 as stated fails where both options are rejected: the fold count \<open>five\<close> is
  present and no integer, yet the run ends with the code of the seed, \<open>-2\<close>.
\<close>

theorem main_invalid_option_counterexample:
  "py_int toy_world (PyStr ''five'') = Inl ValueError \<and>
   main toy_world ''train.csv'' ''report.csv'' (PyStr ''five'') (PyStr ''abc'') PyNone =
     ([Print (Text ''Value of chosen_seed should be int''),
       Print (ExcMessage ValueError), Print (ExcType ValueError)], Exit (- 2))"
  by (simp add: main_def int_or_default_def toy_int)

lemma evaluate_models_verbose:
  "filter (\<lambda>e. \<forall>p. e \<noteq> Print p) tr = filter (\<lambda>e. \<forall>p. e \<noteq> Print p) tr' \<Longrightarrow>
   filter (\<lambda>e. \<forall>p. e \<noteq> Print p) (fst (evaluate_models w vb X y n ms tr df)) =
   filter (\<lambda>e. \<forall>p. e \<noteq> Print p) (fst (evaluate_models w vb' X y n ms tr' df)) \<and>
   snd (evaluate_models w vb X y n ms tr df) = snd (evaluate_models w vb' X y n ms tr' df)"
proof (induction ms arbitrary: tr tr' df)
  case Nil
  then show ?case by simp
next
  case (Cons mc ms)
  obtain m clf where mc: "mc = (m, clf)" by (cases mc)
  let ?np = "\<lambda>e. \<forall>p. e \<noteq> Print p"
  let ?pipe = "Pipeline make_preprocessor clf"
  let ?t = "tr @ (if vb then [Print (Text (''Evaluating '' @ m))] else []) @
              [CrossValidate ?pipe n]"
  let ?t' = "tr' @ (if vb' then [Print (Text (''Evaluating '' @ m))] else []) @
              [CrossValidate ?pipe n]"
  have f: "filter ?np ?t = filter ?np ?t'"
    using Cons.prems by simp
  show ?case
  proof (cases "cross_validate w ?pipe X y eval_metrics n")
    case (Inl e)
    then have "evaluate_models w vb X y n (mc # ms) tr df = (?t, Inl e)"
      and "evaluate_models w vb' X y n (mc # ms) tr' df = (?t', Inl e)"
      unfolding mc by (simp_all add: Let_def)
    with f show ?thesis by (simp only: fst_conv snd_conv)
  next
    case scores: (Inr scores)
    show ?thesis
    proof (cases "summarize_cv_scores scores m")
      case (Inl e)
      with scores have "evaluate_models w vb X y n (mc # ms) tr df = (?t, Inl e)"
        and "evaluate_models w vb' X y n (mc # ms) tr' df = (?t', Inl e)"
        unfolding mc by (simp_all add: Let_def)
      with f show ?thesis by (simp only: fst_conv snd_conv)
    next
      case row: (Inr row)
      show ?thesis
      proof (cases "pd_concat df row")
        case (Inl e)
        with scores row have "evaluate_models w vb X y n (mc # ms) tr df = (?t, Inl e)"
          and "evaluate_models w vb' X y n (mc # ms) tr' df = (?t', Inl e)"
          unfolding mc by (simp_all add: Let_def)
        with f show ?thesis by (simp only: fst_conv snd_conv)
      next
        case (Inr df')
        with scores row have "evaluate_models w vb X y n (mc # ms) tr df =
            evaluate_models w vb X y n ms ?t df'"
          and "evaluate_models w vb' X y n (mc # ms) tr' df =
            evaluate_models w vb' X y n ms ?t' df'"
          unfolding mc by (simp_all add: Let_def)
        with Cons.IH[OF f, of df'] show ?thesis by (simp only:)
      qed
    qed
  qed
qed

lemma evaluate_models_trace:
  "\<exists>ext. fst (evaluate_models w vb X y n ms tr df) = tr @ ext \<and>
         (\<not> vb \<longrightarrow> list_all (\<lambda>e. \<exists>est k. e = CrossValidate est k) ext)"
proof (induction ms arbitrary: tr df)
  case Nil
  then show ?case by simp
next
  case (Cons mc ms)
  obtain m clf where mc: "mc = (m, clf)" by (cases mc)
  let ?pipe = "Pipeline make_preprocessor clf"
  let ?step = "(if vb then [Print (Text (''Evaluating '' @ m))] else []) @ [CrossValidate ?pipe n]"
  have step: "\<not> vb \<longrightarrow> list_all (\<lambda>e. \<exists>est k. e = CrossValidate est k) ?step"
    by simp
  have stop: "\<exists>ext. tr @ ?step = tr @ ext \<and>
         (\<not> vb \<longrightarrow> list_all (\<lambda>e. \<exists>est k. e = CrossValidate est k) ext)"
    using step by blast
  show ?case
  proof (cases "cross_validate w ?pipe X y eval_metrics n")
    case (Inl e)
    then have "fst (evaluate_models w vb X y n (mc # ms) tr df) = tr @ ?step"
      unfolding mc by (simp add: Let_def)
    with stop show ?thesis by simp
  next
    case scores: (Inr scores)
    show ?thesis
    proof (cases "summarize_cv_scores scores m")
      case (Inl e)
      with scores have "fst (evaluate_models w vb X y n (mc # ms) tr df) = tr @ ?step"
        unfolding mc by (simp add: Let_def)
      with stop show ?thesis by simp
    next
      case row: (Inr row)
      show ?thesis
      proof (cases "pd_concat df row")
        case (Inl e)
        with scores row have "fst (evaluate_models w vb X y n (mc # ms) tr df) = tr @ ?step"
          unfolding mc by (simp add: Let_def)
        with stop show ?thesis by simp
      next
        case (Inr df')
        with scores row have eq: "evaluate_models w vb X y n (mc # ms) tr df =
            evaluate_models w vb X y n ms (tr @ ?step) df'"
          unfolding mc by (simp add: Let_def)
        from Cons.IH[of "tr @ ?step" df'] obtain ext where
          e1: "fst (evaluate_models w vb X y n ms (tr @ ?step) df') = (tr @ ?step) @ ext"
          and e2: "\<not> vb \<longrightarrow> list_all (\<lambda>e. \<exists>est k. e = CrossValidate est k) ext"
          by blast
        have "fst (evaluate_models w vb X y n (mc # ms) tr df) = tr @ (?step @ ext)"
          unfolding eq e1 by simp
        moreover have "\<not> vb \<longrightarrow> list_all (\<lambda>e. \<exists>est k. e = CrossValidate est k) (?step @ ext)"
          using step e2 by simp
        ultimately show ?thesis by blast
      qed
    qed
  qed
qed

lemma main_evaluation_verbose:
  "filter (\<lambda>e. \<forall>p. e \<noteq> Print p) (fst (main_evaluation w f r n s vb)) =
   filter (\<lambda>e. \<forall>p. e \<noteq> Print p) (fst (main_evaluation w f r n s vb')) \<and>
   snd (main_evaluation w f r n s vb) = snd (main_evaluation w f r n s vb')"
proof -
  let ?np = "\<lambda>e. \<forall>p. e \<noteq> Print p"
  let ?dummy = "Plain (DummyClassifier ''stratified'' s)"
  let ?t3 = "\<lambda>vb. ([ReadCsv f] @ (if vb then [Print (Text ''Training Data Imported...'')] else [])) @
               (if vb then [Print (Text ''Preprocessor Created...'')] else []) @
               [CrossValidate ?dummy n]"
  have f3: "filter ?np (?t3 vb) = filter ?np (?t3 vb')" by simp
  show ?thesis
  proof (cases "read_csv w f")
    case (Inl e)
    then show ?thesis by (simp add: main_evaluation_def)
  next
    case rd: (Inr train_df)
    show ?thesis
    proof (cases "drop_columns train_df [''is_canceled'']")
      case (Inl e)
      with rd show ?thesis by (simp add: main_evaluation_def)
    next
      case dc: (Inr X_train)
      show ?thesis
      proof (cases "getitem train_df ''is_canceled''")
        case (Inl e)
        with rd dc show ?thesis by (simp add: main_evaluation_def)
      next
        case gi: (Inr y_train)
        show ?thesis
        proof (cases "cross_validate w ?dummy X_train y_train eval_metrics n")
          case (Inl e)
          with rd dc gi show ?thesis by (simp add: main_evaluation_def)
        next
          case cv: (Inr scores)
          show ?thesis
          proof (cases "summarize_cv_scores scores ''Dummy Classifier''")
            case (Inl e)
            with rd dc gi cv show ?thesis by (simp add: main_evaluation_def)
          next
            case sm: (Inr df0)
            obtain t4 res where ev:
              "evaluate_models w vb X_train y_train n (models s) (?t3 vb) df0 = (t4, res)"
              by (cases "evaluate_models w vb X_train y_train n (models s) (?t3 vb) df0")
            obtain t4' res' where ev':
              "evaluate_models w vb' X_train y_train n (models s) (?t3 vb') df0 = (t4', res')"
              by (cases "evaluate_models w vb' X_train y_train n (models s) (?t3 vb') df0")
            note evv = evaluate_models_verbose[OF f3, where w = w and X = X_train and y = y_train
                and n = n and ms = "models s" and df = df0 and vb = vb and vb' = vb']
            have t4: "filter ?np t4 = filter ?np t4'" and res: "res = res'"
              using evv unfolding ev ev' by (simp_all only: fst_conv snd_conv)
            have m: "main_evaluation w f r n s vb =
                (case res of Inl e \<Rightarrow> (t4, Uncaught e)
                 | Inr report \<Rightarrow>
                    (case to_csv w r report of
                       Some e \<Rightarrow>
                         (t4 @ (if vb then [Print (Text ''Evaluation Complete...'')] else []) @
                            [ToCsv r report], Uncaught e)
                     | None \<Rightarrow>
                         (t4 @ (if vb then [Print (Text ''Evaluation Complete...'')] else []) @
                            [ToCsv r report, Print (Text ''Report generated and saved...'')],
                          Returned)))"
              using rd dc gi cv sm ev
              by (simp add: main_evaluation_def Let_def split: sum.splits option.splits)
            have m': "main_evaluation w f r n s vb' =
                (case res' of Inl e \<Rightarrow> (t4', Uncaught e)
                 | Inr report \<Rightarrow>
                    (case to_csv w r report of
                       Some e \<Rightarrow>
                         (t4' @ (if vb' then [Print (Text ''Evaluation Complete...'')] else []) @
                            [ToCsv r report], Uncaught e)
                     | None \<Rightarrow>
                         (t4' @ (if vb' then [Print (Text ''Evaluation Complete...'')] else []) @
                            [ToCsv r report, Print (Text ''Report generated and saved...'')],
                          Returned)))"
              using rd dc gi cv sm ev'
              by (simp add: main_evaluation_def Let_def split: sum.splits option.splits)
            show ?thesis
              unfolding m m' using t4 res
              by (cases res') (simp_all split: option.splits)
          qed
        qed
      qed
    qed
  qed
qed

lemma main_evaluation_progress:
  assumes rd: "read_csv w f = Inr train_df"
  shows "Print (Text ''Training Data Imported...'') \<in> set (fst (main_evaluation w f r n s vb))
         \<longleftrightarrow> vb"
proof -
  let ?msg = "Print (Text ''Training Data Imported...'')"
  let ?dummy = "Plain (DummyClassifier ''stratified'' s)"
  let ?t1 = "[ReadCsv f] @ (if vb then [?msg] else [])"
  let ?t3 = "?t1 @ (if vb then [Print (Text ''Preprocessor Created...'')] else []) @
               [CrossValidate ?dummy n]"
  have t1: "?msg \<in> set ?t1 \<longleftrightarrow> vb" by simp
  have t3: "?msg \<in> set ?t3 \<longleftrightarrow> vb" by simp
  show ?thesis
  proof (cases "drop_columns train_df [''is_canceled'']")
    case (Inl e)
    with rd have "fst (main_evaluation w f r n s vb) = ?t1"
      by (simp add: main_evaluation_def)
    with t1 show ?thesis by (simp only:)
  next
    case dc: (Inr X_train)
    show ?thesis
    proof (cases "getitem train_df ''is_canceled''")
      case (Inl e)
      with rd dc have "fst (main_evaluation w f r n s vb) = ?t1"
        by (simp add: main_evaluation_def)
      with t1 show ?thesis by (simp only:)
    next
      case gi: (Inr y_train)
      show ?thesis
      proof (cases "cross_validate w ?dummy X_train y_train eval_metrics n")
        case (Inl e)
        with rd dc gi have "fst (main_evaluation w f r n s vb) = ?t3"
          by (simp add: main_evaluation_def)
        with t3 show ?thesis by (simp only:)
      next
        case cv: (Inr scores)
        show ?thesis
        proof (cases "summarize_cv_scores scores ''Dummy Classifier''")
          case (Inl e)
          with rd dc gi cv have "fst (main_evaluation w f r n s vb) = ?t3"
            by (simp add: main_evaluation_def)
          with t3 show ?thesis by (simp only:)
        next
          case sm: (Inr df0)
          obtain t4 res where ev:
            "evaluate_models w vb X_train y_train n (models s) ?t3 df0 = (t4, res)"
            by (cases "evaluate_models w vb X_train y_train n (models s) ?t3 df0")
          from evaluate_models_trace[of w vb X_train y_train n "models s" ?t3 df0] ev
          obtain ext where t4: "t4 = ?t3 @ ext"
            and q: "\<not> vb \<longrightarrow> list_all (\<lambda>e. \<exists>est k. e = CrossValidate est k) ext"
            by auto
          have ext: "\<not> vb \<longrightarrow> ?msg \<notin> set ext"
            using q by (auto simp: list_all_iff)
          have t4m: "?msg \<in> set t4 \<longleftrightarrow> vb"
            unfolding t4 using ext by auto
          have m: "fst (main_evaluation w f r n s vb) =
                (case res of Inl e \<Rightarrow> t4
                 | Inr report \<Rightarrow>
                    t4 @ (if vb then [Print (Text ''Evaluation Complete...'')] else []) @
                      [ToCsv r report] @
                      (case to_csv w r report of Some e \<Rightarrow> []
                       | None \<Rightarrow> [Print (Text ''Report generated and saved...'')]))"
            using rd dc gi cv sm ev
            by (simp add: main_evaluation_def Let_def split: sum.splits option.splits)
          show ?thesis
            unfolding m using t4m by (cases res) (simp_all split: option.splits)
        qed
      qed
    qed
  qed
qed

text \<open>
  Claim C9. Every value of the verbose argument other than the string \<open>True\<close> gives
  the very run that an absent argument gives. Whatever the value, the run ends the same
  way and does the same things apart from printing, so the argument is never an error.
  And when the options are accepted and the file is read, the progress line
  \<open>Training Data Imported...\<close> is printed exactly when the argument is the string
  \<open>True\<close>.
\<close>

theorem main_verbose:
  "(verbose \<noteq> PyStr ''True'' \<longrightarrow>
      main w train_data_file report_file n_cv_folds chosen_seed verbose =
      main w train_data_file report_file n_cv_folds chosen_seed PyNone) \<and>
   snd (main w train_data_file report_file n_cv_folds chosen_seed verbose) =
     snd (main w train_data_file report_file n_cv_folds chosen_seed PyNone) \<and>
   filter (\<lambda>e. \<forall>p. e \<noteq> Print p)
       (fst (main w train_data_file report_file n_cv_folds chosen_seed verbose)) =
     filter (\<lambda>e. \<forall>p. e \<noteq> Print p)
       (fst (main w train_data_file report_file n_cv_folds chosen_seed PyNone)) \<and>
   (int_or_default w 1 chosen_seed = Inr seed \<and> int_or_default w 5 n_cv_folds = Inr n \<and>
    read_csv w train_data_file = Inr train_df \<longrightarrow>
      (Print (Text ''Training Data Imported...'') \<in>
         set (fst (main w train_data_file report_file n_cv_folds chosen_seed verbose))
       \<longleftrightarrow> verbose = PyStr ''True''))"
proof (intro conjI impI)
  assume "verbose \<noteq> PyStr ''True''"
  then show "main w train_data_file report_file n_cv_folds chosen_seed verbose =
      main w train_data_file report_file n_cv_folds chosen_seed PyNone"
    by (simp add: main_def)
next
  show "snd (main w train_data_file report_file n_cv_folds chosen_seed verbose) =
     snd (main w train_data_file report_file n_cv_folds chosen_seed PyNone)"
    using main_evaluation_verbose
    by (simp add: main_def split: sum.splits)
next
  show "filter (\<lambda>e. \<forall>p. e \<noteq> Print p)
       (fst (main w train_data_file report_file n_cv_folds chosen_seed verbose)) =
     filter (\<lambda>e. \<forall>p. e \<noteq> Print p)
       (fst (main w train_data_file report_file n_cv_folds chosen_seed PyNone))"
    using main_evaluation_verbose
    by (simp add: main_def split: sum.splits)
next
  assume a: "int_or_default w 1 chosen_seed = Inr seed \<and> int_or_default w 5 n_cv_folds = Inr n \<and>
    read_csv w train_data_file = Inr train_df"
  then have rd: "read_csv w train_data_file = Inr train_df" by simp
  from a main_evaluation_progress[OF rd, of report_file n seed "verbose = PyStr ''True''"]
  show "Print (Text ''Training Data Imported...'') \<in>
         set (fst (main w train_data_file report_file n_cv_folds chosen_seed verbose))
       \<longleftrightarrow> verbose = PyStr ''True''"
    by (cases "verbose = PyStr ''True''") (simp_all add: main_def)
qed

theorem main_verbose_witness:
  "main toy_world ''train.csv'' ''report.csv'' PyNone PyNone (PyStr ''true'') =
     main toy_world ''train.csv'' ''report.csv'' PyNone PyNone PyNone \<and>
   main toy_world ''train.csv'' ''report.csv'' PyNone PyNone (PyStr ''1'') =
     main toy_world ''train.csv'' ''report.csv'' PyNone PyNone PyNone \<and>
   main toy_world ''train.csv'' ''report.csv'' PyNone PyNone (PyBool True) =
     main toy_world ''train.csv'' ''report.csv'' PyNone PyNone PyNone \<and>
   Print (Text ''Training Data Imported...'') \<in>
     set (fst (main toy_world ''train.csv'' ''report.csv'' PyNone PyNone (PyStr ''True''))) \<and>
   Print (Text ''Training Data Imported...'') \<notin>
     set (fst (main toy_world ''train.csv'' ''report.csv'' PyNone PyNone (PyStr ''true'')))"
proof -
  let ?tbl = "[(''lead_time'', [''342'', ''737'']), (''is_canceled'', [''0'', ''1''])]"
  have rd: "read_csv toy_world ''train.csv'' = Inr ?tbl"
    by (simp add: toy_world_def)
  have s1: "int_or_default toy_world 1 PyNone = Inr 1"
    and s5: "int_or_default toy_world 5 PyNone = Inr 5"
    by (simp_all add: int_or_default_def)
  note v = main_verbose[where w = toy_world
      and train_data_file = "''train.csv''" and report_file = "''report.csv''"
      and n_cv_folds = PyNone and chosen_seed = PyNone and seed = 1 and n = 5
      and train_df = ?tbl]
  have a: "main toy_world ''train.csv'' ''report.csv'' PyNone PyNone (PyStr ''true'') =
     main toy_world ''train.csv'' ''report.csv'' PyNone PyNone PyNone"
    using v[of "PyStr ''true''"] by simp
  have b: "main toy_world ''train.csv'' ''report.csv'' PyNone PyNone (PyStr ''1'') =
     main toy_world ''train.csv'' ''report.csv'' PyNone PyNone PyNone"
    using v[of "PyStr ''1''"] by simp
  have c: "main toy_world ''train.csv'' ''report.csv'' PyNone PyNone (PyBool True) =
     main toy_world ''train.csv'' ''report.csv'' PyNone PyNone PyNone"
    using v[of "PyBool True"] by simp
  have d: "Print (Text ''Training Data Imported...'') \<in>
     set (fst (main toy_world ''train.csv'' ''report.csv'' PyNone PyNone (PyStr ''True'')))"
    using v[of "PyStr ''True''"] rd s1 s5 by blast
  have e: "Print (Text ''Training Data Imported...'') \<notin>
     set (fst (main toy_world ''train.csv'' ''report.csv'' PyNone PyNone (PyStr ''true'')))"
  proof -
    from v[of "PyStr ''true''"] rd s1 s5
    have "Print (Text ''Training Data Imported...'') \<in>
        set (fst (main toy_world ''train.csv'' ''report.csv'' PyNone PyNone (PyStr ''true'')))
      \<longleftrightarrow> PyStr ''true'' = PyStr ''True''"
      by blast
    then show ?thesis by simp
  qed
  from a b c d e show ?thesis by (intro conjI)
qed




end
